theory Spec2Isabelle
  imports Main "HOL-Library.Multiset"
begin

section \<open>Port scanner (port_scanner.py)\<close>

subsection \<open>Python values and exceptions\<close>

text \<open>
  The result of one probe is a Python dictionary with string keys and values that are
  integers or strings; it is kept as an association list in the order the literal is
  written.
\<close>

datatype pyval = PyInt int | PyStr string

type_synonym dict = "(string \<times> pyval) list"

text \<open>
  The exceptions the body of \<open>scan_port\<close> tells apart: \<open>socket.timeout\<close>, and
  every other \<open>Exception\<close>. Each carries \<open>str(e)\<close>.
\<close>

datatype exn = SocketTimeout string | OtherException string

text \<open>The only exception that leaves \<open>run\<close> and the port parsing of \<open>main\<close>.\<close>

datatype py_error = ValueError

subsection \<open>The socket library as a parameter\<close>

text \<open>
  The three calls of \<open>scan_port\<close> that can raise, each returning (\<open>Inr\<close>) or raising
  (\<open>Inl\<close>): \<open>socket.socket(AF_INET, SOCK_STREAM)\<close>, \<open>sock.settimeout(timeout)\<close> and
  \<open>sock.connect_ex((target, port))\<close>, whose return value is the error indicator of the
  connect. \<open>sock.close()\<close> is taken to return.
\<close>

record sock_api =
  socket_new :: "exn + unit"
  settimeout :: "int \<Rightarrow> exn + unit"
  connect_ex :: "string \<Rightarrow> int \<Rightarrow> exn + int"

text \<open>What one invocation does to sockets, in order.\<close>

datatype sock_op = SockCreate | SockClose

subsection \<open>class PortScanner\<close>

record scanner =
  target :: string
  ports :: "int list"
  timeout :: int
  threads :: int
  open_ports :: "int list"
  closed_ports :: "int list"
  filtered_ports :: "int list"

text \<open>\<open>__init__\<close>\<close>

definition PortScanner :: "string \<Rightarrow> int list \<Rightarrow> int \<Rightarrow> int \<Rightarrow> scanner" where
  "PortScanner tgt ps tmo thr =
     \<lparr>target = tgt, ports = ps, timeout = tmo, threads = thr,
      open_ports = [], closed_ports = [], filtered_ports = []\<rparr>"

text \<open>
  The statements of \<open>scan_port\<close> that can raise (the first four of the \<open>try\<close> block):
  the value of \<open>result\<close> or the exception raised, and what was done to sockets up to
  that point.
\<close>

definition connect_attempt :: "scanner \<Rightarrow> sock_api \<Rightarrow> int \<Rightarrow> (exn + int) \<times> sock_op list" where
  "connect_attempt self api port =
     (case socket_new api of
        Inl e \<Rightarrow> (Inl e, [])
      | Inr _ \<Rightarrow>
         (case settimeout api (timeout self) of
            Inl e \<Rightarrow> (Inl e, [SockCreate])
          | Inr _ \<Rightarrow>
             (case connect_ex api (target self) port of
                Inl e \<Rightarrow> (Inl e, [SockCreate])
              | Inr result \<Rightarrow> (Inr result, [SockCreate, SockClose]))))"

text \<open>
  \<open>scan_port\<close>: the returned dictionary, the scanner after the call, and the socket
  operations performed. The \<open>if\<close> on \<open>result\<close>, then the two \<open>except\<close> clauses in
  their order.
\<close>

definition scan_port ::
  "scanner \<Rightarrow> sock_api \<Rightarrow> int \<Rightarrow> dict \<times> scanner \<times> sock_op list" where
  "scan_port self api port =
     (case connect_attempt self api port of
        (Inr result, ops) \<Rightarrow>
          if result = 0 then
            ([(''port'', PyInt port), (''status'', PyStr ''OPEN'')],
             self\<lparr>open_ports := open_ports self @ [port]\<rparr>, ops)
          else
            ([(''port'', PyInt port), (''status'', PyStr ''CLOSED'')],
             self\<lparr>closed_ports := closed_ports self @ [port]\<rparr>, ops)
      | (Inl (SocketTimeout _), ops) \<Rightarrow>
          ([(''port'', PyInt port), (''status'', PyStr ''FILTERED'')],
           self\<lparr>filtered_ports := filtered_ports self @ [port]\<rparr>, ops)
      | (Inl (OtherException msg), ops) \<Rightarrow>
          ([(''port'', PyInt port), (''status'', PyStr ''ERROR''), (''error'', PyStr msg)],
           self, ops))"

text \<open>
  \<open>run\<close>. \<open>ThreadPoolExecutor(max_workers=self.threads)\<close> raises \<open>ValueError\<close> when
  \<open>max_workers <= 0\<close>, before any task is submitted. Otherwise one task
  \<open>self.scan_port(port)\<close> is submitted per element of \<open>self.ports\<close>; task \<open>i\<close> meets
  the network behaviour \<open>envs i\<close>. A task touches the scanner through at most one list
  append, so an execution of the pool is the tasks run one after the other in some order
  \<open>sched\<close>, a permutation of the task indices chosen by the pool. The futures are read
  in submission order, whatever the order of execution.
\<close>

definition task :: "(nat \<Rightarrow> sock_api) \<Rightarrow> nat \<Rightarrow> scanner \<Rightarrow> dict \<times> scanner \<times> sock_op list" where
  "task envs i self = scan_port self (envs i) (ports self ! i)"

definition execute :: "(nat \<Rightarrow> sock_api) \<Rightarrow> nat list \<Rightarrow> scanner \<Rightarrow> scanner" where
  "execute envs sched self = fold (\<lambda>i st. fst (snd (task envs i st))) sched self"

definition run ::
  "scanner \<Rightarrow> (nat \<Rightarrow> sock_api) \<Rightarrow> nat list \<Rightarrow> py_error + (dict list \<times> scanner)" where
  "run self envs sched =
     (if threads self \<le> 0 then Inl ValueError
      else
        Inr (map (\<lambda>i. fst (task envs i
                          (execute envs (takeWhile (\<lambda>j. j \<noteq> i) sched) self)))
                 [0..<length (ports self)],
             execute envs sched self))"

subsection \<open>Port parsing in main\<close>

text \<open>\<open>s.split(c)\<close> for a separator of one character.\<close>

fun split_on :: "char \<Rightarrow> string \<Rightarrow> string list" where
  "split_on c [] = [[]]"
| "split_on c (x # xs) =
     (if x = c then [] # split_on c xs
      else (case split_on c xs of
              [] \<Rightarrow> [[x]]
            | t # ts \<Rightarrow> (x # t) # ts))"

text \<open>
  \<open>int(s)\<close> on a string whose characters are code points below 256: surrounding
  whitespace is dropped, then an optional sign, then decimal digits, where single
  underscores may separate digits. The whitespace \<open>int\<close> drops is tab, line feed,
  vertical tab, form feed, carriage return and space, and of the code points from 128 on
  the next-line character 133 and the no-break space 160; the separators 28 to 31 are not
  dropped. \<open>None\<close> stands for the \<open>ValueError\<close> of \<open>int\<close>. The limit that recent
  interpreters put on the number of digits is left out.
\<close>

definition is_space :: "char \<Rightarrow> bool" where
  "is_space c = (of_char c \<in> {9, 10, 11, 12, 13, 32, 133, 160 :: nat})"

definition is_digit :: "char \<Rightarrow> bool" where
  "is_digit c = (48 \<le> (of_char c :: nat) \<and> (of_char c :: nat) \<le> 57)"

definition digit_val :: "char \<Rightarrow> int" where
  "digit_val c = int (of_char c) - 48"

definition strip :: "string \<Rightarrow> string" where
  "strip s = rev (dropWhile is_space (rev (dropWhile is_space s)))"

fun digits_from :: "int \<Rightarrow> string \<Rightarrow> int option" where
  "digits_from acc [] = Some acc"
| "digits_from acc (c # cs) =
     (if is_digit c then digits_from (10 * acc + digit_val c) cs
      else if c = CHR ''_'' then
        (case cs of
           [] \<Rightarrow> None
         | d # _ \<Rightarrow> if is_digit d then digits_from acc cs else None)
      else None)"

definition py_digits :: "string \<Rightarrow> int option" where
  "py_digits s =
     (case s of
        [] \<Rightarrow> None
      | c # _ \<Rightarrow> if is_digit c then digits_from 0 s else None)"

definition py_int :: "string \<Rightarrow> int option" where
  "py_int s =
     (case strip s of
        [] \<Rightarrow> None
      | c # cs \<Rightarrow>
          if c = CHR ''-'' then map_option uminus (py_digits cs)
          else if c = CHR ''+'' then py_digits cs
          else py_digits (c # cs))"

text \<open>
  The lines under \<open># Parse ports\<close>. In the range branch the two targets are unpacked
  from \<open>map(int, ...)\<close>: a token that is no integer, or a number of tokens other than
  two, raises \<open>ValueError\<close>. \<open>list(range(start, end + 1))\<close> is \<open>[start..end]\<close>.
\<close>

definition parse_ports :: "string \<Rightarrow> py_error + int list" where
  "parse_ports s =
     (if CHR ''-'' \<in> set s then
        (case map py_int (split_on CHR ''-'' s) of
           [Some start, Some end] \<Rightarrow> Inr [start..end]
         | _ \<Rightarrow> Inl ValueError)
      else
        (let toks = map py_int (split_on CHR '','' s)
         in if None \<in> set toks then Inl ValueError else Inr (map the toks)))"

subsection \<open>Views and sample inputs used by the statements\<close>

text \<open>
  The source keeps no separate error list: the ERROR outcomes of a scan are the entries
  of the list returned by \<open>run\<close> whose status is \<open>'ERROR'\<close>. \<open>error_list\<close> reads them
  off as (port, message) pairs, in the order of the list.
\<close>

definition error_entry :: "dict \<Rightarrow> (int \<times> string) list" where
  "error_entry r =
     (case (map_of r ''port'', map_of r ''status'', map_of r ''error'') of
        (Some (PyInt p), Some (PyStr st), Some (PyStr m)) \<Rightarrow>
          if st = ''ERROR'' then [(p, m)] else []
      | _ \<Rightarrow> [])"

definition error_list :: "dict list \<Rightarrow> (int \<times> string) list" where
  "error_list results = concat (map error_entry results)"

text \<open>
  Error indicators a connect can report (the values of the \<open>errno\<close> module on Linux):
  connection refused, network unreachable, and the two with which a connect reports
  that no answer came in time.
\<close>

definition ECONNREFUSED :: int where "ECONNREFUSED = 111"
definition ENETUNREACH :: int where "ENETUNREACH = 101"
definition ETIMEDOUT :: int where "ETIMEDOUT = 110"
definition EAGAIN :: int where "EAGAIN = 11"

text \<open>
  The classification policy in the words of the specification, on the outcome of the
  connect attempt: an established connection is OPEN, an explicit refusal is CLOSED, no
  response within the timeout is FILTERED, any other transport failure is ERROR.
\<close>

fun spec_policy :: "exn + int \<Rightarrow> string" where
  "spec_policy (Inr r) =
     (if r = 0 then ''OPEN''
      else if r = ECONNREFUSED then ''CLOSED''
      else if r = ETIMEDOUT \<or> r = EAGAIN then ''FILTERED''
      else ''ERROR'')"
| "spec_policy (Inl (SocketTimeout _)) = ''FILTERED''"
| "spec_policy (Inl (OtherException _)) = ''ERROR''"

text \<open>
  Network behaviours for one probe: the connect reports the indicator \<open>r\<close>; the connect
  raises \<open>e\<close>; no socket can be created.
\<close>

definition api_returning :: "int \<Rightarrow> sock_api" where
  "api_returning r =
     \<lparr>socket_new = Inr (), settimeout = (\<lambda>_. Inr ()), connect_ex = (\<lambda>_ _. Inr r)\<rparr>"

definition api_raising :: "exn \<Rightarrow> sock_api" where
  "api_raising e =
     \<lparr>socket_new = Inr (), settimeout = (\<lambda>_. Inr ()), connect_ex = (\<lambda>_ _. Inl e)\<rparr>"

definition api_no_socket :: "exn \<Rightarrow> sock_api" where
  "api_no_socket e =
     \<lparr>socket_new = Inl e, settimeout = (\<lambda>_. Inr ()), connect_ex = (\<lambda>_ _. Inr 0)\<rparr>"

text \<open>The behaviours of a list, one per task; refusal beyond its end.\<close>

definition net :: "sock_api list \<Rightarrow> nat \<Rightarrow> sock_api" where
  "net apis i = (if i < length apis then apis ! i else api_returning ECONNREFUSED)"

text \<open>The status a result dictionary carries, and whether task \<open>i\<close> returns status \<open>st\<close>.\<close>

definition status_of :: "dict \<Rightarrow> string" where
  "status_of r = (case map_of r ''status'' of Some (PyStr st) \<Rightarrow> st | _ \<Rightarrow> [])"

definition has_status :: "(nat \<Rightarrow> sock_api) \<Rightarrow> scanner \<Rightarrow> string \<Rightarrow> nat \<Rightarrow> bool" where
  "has_status envs self st i = (status_of (fst (task envs i self)) = st)"

section \<open>Properties\<close>

subsection \<open>One probe\<close>

lemma connect_attempt_cong:
  "target a = target b \<Longrightarrow> timeout a = timeout b \<Longrightarrow> connect_attempt a api p = connect_attempt b api p"
  by (simp add: connect_attempt_def split: sum.splits)

lemma scan_port_fst_cong:
  "target a = target b \<Longrightarrow> timeout a = timeout b \<Longrightarrow> fst (scan_port a api p) = fst (scan_port b api p)"
  by (simp add: scan_port_def connect_attempt_cong [of a b] split: prod.splits sum.splits exn.splits)

lemma scan_port_frame:
  "target (fst (snd (scan_port self api p))) = target self \<and>
   ports (fst (snd (scan_port self api p))) = ports self \<and>
   timeout (fst (snd (scan_port self api p))) = timeout self \<and>
   threads (fst (snd (scan_port self api p))) = threads self"
  by (simp add: scan_port_def split: prod.splits sum.splits exn.splits)

lemma scan_port_buckets:
  "open_ports (fst (snd (scan_port self api p))) =
     open_ports self @ (if status_of (fst (scan_port self api p)) = ''OPEN'' then [p] else []) \<and>
   closed_ports (fst (snd (scan_port self api p))) =
     closed_ports self @ (if status_of (fst (scan_port self api p)) = ''CLOSED'' then [p] else []) \<and>
   filtered_ports (fst (snd (scan_port self api p))) =
     filtered_ports self @ (if status_of (fst (scan_port self api p)) = ''FILTERED'' then [p] else [])"
  by (simp add: scan_port_def status_of_def split: prod.splits sum.splits exn.splits)

lemma scan_port_status_cases:
  "status_of (fst (scan_port self api p)) \<in> {''OPEN'', ''CLOSED'', ''FILTERED'', ''ERROR''}"
  by (simp add: scan_port_def status_of_def split: prod.splits sum.splits exn.splits)

lemma scan_port_error_entry:
  "error_entry (fst (scan_port self api p)) =
     (case fst (connect_attempt self api p) of Inl (OtherException m) \<Rightarrow> [(p, m)] | _ \<Rightarrow> [])"
  by (simp add: scan_port_def error_entry_def split: prod.splits sum.splits exn.splits)

lemma scan_port_error_entry_status:
  "map fst (error_entry (fst (scan_port self api p))) =
     (if status_of (fst (scan_port self api p)) = ''ERROR'' then [p] else [])"
  by (simp add: scan_port_def error_entry_def status_of_def split: prod.splits sum.splits exn.splits)


lemma task_fst_cong:
  "target a = target b \<Longrightarrow> timeout a = timeout b \<Longrightarrow> ports a = ports b \<Longrightarrow>
   fst (task envs i a) = fst (task envs i b)"
  by (simp add: task_def scan_port_fst_cong [of a b])

lemma task_frame:
  "target (fst (snd (task envs i self))) = target self \<and>
   ports (fst (snd (task envs i self))) = ports self \<and>
   timeout (fst (snd (task envs i self))) = timeout self \<and>
   threads (fst (snd (task envs i self))) = threads self"
  by (simp add: task_def scan_port_frame)

lemma execute_Nil: "execute envs [] self = self"
  by (simp add: execute_def)

lemma execute_Cons: "execute envs (i # sched) self = execute envs sched (fst (snd (task envs i self)))"
  by (simp add: execute_def)

lemma execute_frame:
  "target (execute envs sched self) = target self \<and>
   ports (execute envs sched self) = ports self \<and>
   timeout (execute envs sched self) = timeout self \<and>
   threads (execute envs sched self) = threads self"
proof (induction sched arbitrary: self)
  case Nil
  show ?case by (simp add: execute_Nil)
next
  case (Cons i sched)
  show ?case by (simp add: execute_Cons Cons.IH task_frame)
qed

lemma task_fst_execute: "fst (task envs i (execute envs sched self)) = fst (task envs i self)"
  by (rule task_fst_cong) (simp_all add: execute_frame)

lemma run_eq:
  "0 < threads self \<Longrightarrow>
   run self envs sched =
     Inr (map (\<lambda>i. fst (task envs i self)) [0..<length (ports self)], execute envs sched self)"
  by (simp add: run_def task_fst_execute)

lemma has_status_step:
  "has_status envs (fst (snd (task envs i self))) st = has_status envs self st"
  by (rule ext) (simp add: has_status_def task_fst_cong [OF _ _ _, of "fst (snd (task envs i self))" self] task_frame)

lemma task_buckets:
  "open_ports (fst (snd (task envs i self))) =
     open_ports self @ (if has_status envs self ''OPEN'' i then [ports self ! i] else []) \<and>
   closed_ports (fst (snd (task envs i self))) =
     closed_ports self @ (if has_status envs self ''CLOSED'' i then [ports self ! i] else []) \<and>
   filtered_ports (fst (snd (task envs i self))) =
     filtered_ports self @ (if has_status envs self ''FILTERED'' i then [ports self ! i] else [])"
  unfolding has_status_def task_def by (rule scan_port_buckets)

lemma execute_buckets:
  "open_ports (execute envs sched self) =
     open_ports self @ map (\<lambda>i. ports self ! i) (filter (has_status envs self ''OPEN'') sched) \<and>
   closed_ports (execute envs sched self) =
     closed_ports self @ map (\<lambda>i. ports self ! i) (filter (has_status envs self ''CLOSED'') sched) \<and>
   filtered_ports (execute envs sched self) =
     filtered_ports self @ map (\<lambda>i. ports self ! i) (filter (has_status envs self ''FILTERED'') sched)"
proof (induction sched arbitrary: self)
  case Nil
  show ?case by (simp add: execute_Nil)
next
  case (Cons i sched)
  show ?case
    by (simp add: execute_Cons Cons.IH has_status_step task_frame task_buckets)
qed

lemma error_list_run:
  "map fst (error_list (map (\<lambda>i. fst (task envs i self)) idx)) =
     map (\<lambda>i. ports self ! i) (filter (has_status envs self ''ERROR'') idx)"
  by (induction idx) (simp_all add: error_list_def has_status_def task_def scan_port_error_entry_status)


lemma has_status_total:
  "has_status envs self ''OPEN'' i \<or> has_status envs self ''CLOSED'' i \<or>
   has_status envs self ''FILTERED'' i \<or> has_status envs self ''ERROR'' i"
  using scan_port_status_cases [of self "envs i" "ports self ! i"]
  by (auto simp add: has_status_def task_def)

lemma has_status_unique:
  "has_status envs self st i \<Longrightarrow> has_status envs self st' i \<Longrightarrow> st = st'"
  by (simp add: has_status_def)

lemma PortScanner_sel:
  "target (PortScanner tgt ps tmo thr) = tgt" "ports (PortScanner tgt ps tmo thr) = ps"
  "timeout (PortScanner tgt ps tmo thr) = tmo" "threads (PortScanner tgt ps tmo thr) = thr"
  "open_ports (PortScanner tgt ps tmo thr) = []" "closed_ports (PortScanner tgt ps tmo thr) = []"
  "filtered_ports (PortScanner tgt ps tmo thr) = []"
  by (simp_all add: PortScanner_def)

lemma picked_set:
  assumes "set sched = {0..<length ps}"
  shows "set (map (\<lambda>i. ps ! i) (filter P sched)) = {ps ! i |i. i < length ps \<and> P i}"
  using assms by auto

lemma picked_distinct:
  assumes "distinct ps" "distinct sched" "set sched = {0..<length ps}"
  shows "distinct (map (\<lambda>i. ps ! i) (filter P sched))"
proof -
  have "inj_on (\<lambda>i. ps ! i) (set (filter P sched))"
    using assms by (auto simp add: inj_on_def nth_eq_iff_index_eq)
  then show ?thesis using assms(2) by (simp add: distinct_map)
qed

lemma picked_disjoint:
  assumes "distinct ps" "\<And>i. P i \<Longrightarrow> Q i \<Longrightarrow> False"
  shows "{ps ! i |i. i < length ps \<and> P i} \<inter> {ps ! i |i. i < length ps \<and> Q i} = {}"
  using assms by (auto simp add: nth_eq_iff_index_eq)

lemma scan_port_result:
  "fst (scan_port self api p) =
     (case fst (connect_attempt self api p) of
        Inr result \<Rightarrow>
          [(''port'', PyInt p), (''status'', PyStr (if result = 0 then ''OPEN'' else ''CLOSED''))]
      | Inl (SocketTimeout m) \<Rightarrow> [(''port'', PyInt p), (''status'', PyStr ''FILTERED'')]
      | Inl (OtherException m) \<Rightarrow>
          [(''port'', PyInt p), (''status'', PyStr ''ERROR''), (''error'', PyStr m)])"
  by (simp add: scan_port_def split: prod.splits sum.splits exn.splits)

lemma all_errors:
  assumes "\<forall>i < length (ports self). \<exists>m.
             fst (connect_attempt self (envs i) (ports self ! i)) = Inl (OtherException m)"
  shows "map fst (error_list (map (\<lambda>i. fst (task envs i self)) [0..<length (ports self)])) = ports self"
proof -
  have "has_status envs self ''ERROR'' i" if "i \<in> set [0..<length (ports self)]" for i
  proof -
    from that assms obtain m where
      "fst (connect_attempt self (envs i) (ports self ! i)) = Inl (OtherException m)"
      by auto
    then show ?thesis
      by (simp add: has_status_def task_def scan_port_result status_of_def)
  qed
  then have "\<forall>i \<in> set [0..<length (ports self)]. has_status envs self ''ERROR'' i"
    by blast
  then have "filter (has_status envs self ''ERROR'') [0..<length (ports self)] =
               [0..<length (ports self)]"
    by (rule filter_True)
  then show ?thesis
    by (simp only: error_list_run map_nth)
qed

subsection \<open>Splitting\<close>

lemma split_on_nonempty: "split_on c s \<noteq> []"
  by (induction s) (auto split: list.splits)

lemma split_on_length: "c \<in> set s \<Longrightarrow> 2 \<le> length (split_on c s)"
proof (induction s)
  case Nil
  then show ?case by simp
next
  case (Cons x s)
  show ?case
  proof (cases "x = c")
    case True
    then show ?thesis using split_on_nonempty [of c s] by (cases "split_on c s") simp_all
  next
    case False
    then show ?thesis using Cons by (auto split: list.splits)
  qed
qed

subsection \<open>The scan\<close>

text \<open>
  C1, as the code has it. A scan by a freshly constructed scanner over a port list
  without duplicates, with at least one worker and any order of execution, puts every
  port in exactly one of the lists \<open>open_ports\<close>, \<open>closed_ports\<close>, \<open>filtered_ports\<close>
  or among the ERROR entries of the returned list: the four are pairwise disjoint, none
  repeats a port, and together they are the set of input ports.
\<close>

theorem scan_partitions_ports:
  assumes "distinct ps" and "0 < thr" and "mset sched = mset [0..<length ps]"
  shows "\<exists>results s'.
           run (PortScanner tgt ps tmo thr) envs sched = Inr (results, s') \<and>
           set (open_ports s') \<inter> set (closed_ports s') = {} \<and>
           set (open_ports s') \<inter> set (filtered_ports s') = {} \<and>
           set (closed_ports s') \<inter> set (filtered_ports s') = {} \<and>
           set (open_ports s') \<inter> fst ` set (error_list results) = {} \<and>
           set (closed_ports s') \<inter> fst ` set (error_list results) = {} \<and>
           set (filtered_ports s') \<inter> fst ` set (error_list results) = {} \<and>
           set (open_ports s') \<union> set (closed_ports s') \<union> set (filtered_ports s') \<union>
             fst ` set (error_list results) = set ps \<and>
           distinct (open_ports s') \<and> distinct (closed_ports s') \<and>
           distinct (filtered_ports s') \<and> distinct (map fst (error_list results))"
proof -
  define self where "self = PortScanner tgt ps tmo thr"
  define results where "results = map (\<lambda>i. fst (task envs i self)) [0..<length ps]"
  define s' where "s' = execute envs sched self"
  define pick where "pick st = {ps ! i |i. i < length ps \<and> has_status envs self st i}" for st
  have sel: "ports self = ps" "threads self = thr" "open_ports self = []"
    "closed_ports self = []" "filtered_ports self = []"
    by (simp_all add: self_def PortScanner_sel)
  have run: "run self envs sched = Inr (results, s')"
    using assms(2) by (simp add: run_eq sel results_def s'_def)
  have sset: "set sched = {0..<length ps}"
    using mset_eq_setD [OF assms(3)] by simp
  have sdist: "distinct sched"
    using mset_eq_imp_distinct_iff [OF assms(3)] by simp
  have iset: "set [0..<length ps] = {0..<length ps}" by simp
  have o: "open_ports s' = map (\<lambda>i. ps ! i) (filter (has_status envs self ''OPEN'') sched)"
    and c: "closed_ports s' = map (\<lambda>i. ps ! i) (filter (has_status envs self ''CLOSED'') sched)"
    and f: "filtered_ports s' = map (\<lambda>i. ps ! i) (filter (has_status envs self ''FILTERED'') sched)"
    using execute_buckets [of envs sched self] by (simp_all add: s'_def sel)
  have e: "map fst (error_list results) =
             map (\<lambda>i. ps ! i) (filter (has_status envs self ''ERROR'') [0..<length ps])"
    using error_list_run [of envs self "[0..<length ps]"] by (simp add: results_def sel)
  have so: "set (open_ports s') = pick ''OPEN''"
    and sc: "set (closed_ports s') = pick ''CLOSED''"
    and sf: "set (filtered_ports s') = pick ''FILTERED''"
    unfolding o c f pick_def by (rule picked_set [OF sset])+
  have "set (map fst (error_list results)) = pick ''ERROR''"
    unfolding e pick_def by (rule picked_set [OF iset])
  then have se: "fst ` set (error_list results) = pick ''ERROR''" by simp
  have disj: "pick st \<inter> pick st' = {}" if "st \<noteq> st'" for st st'
    unfolding pick_def
    by (rule picked_disjoint [OF assms(1)]) (use that has_status_unique in blast)
  have union: "pick ''OPEN'' \<union> pick ''CLOSED'' \<union> pick ''FILTERED'' \<union> pick ''ERROR'' = set ps"
  proof
    show "pick ''OPEN'' \<union> pick ''CLOSED'' \<union> pick ''FILTERED'' \<union> pick ''ERROR'' \<subseteq> set ps"
      by (auto simp add: pick_def)
    show "set ps \<subseteq> pick ''OPEN'' \<union> pick ''CLOSED'' \<union> pick ''FILTERED'' \<union> pick ''ERROR''"
    proof
      fix p assume "p \<in> set ps"
      then obtain i where i: "i < length ps" "ps ! i = p" by (auto simp add: in_set_conv_nth)
      from has_status_total [of envs self i] i
      show "p \<in> pick ''OPEN'' \<union> pick ''CLOSED'' \<union> pick ''FILTERED'' \<union> pick ''ERROR''"
        unfolding pick_def by blast
    qed
  qed
  have d: "distinct (open_ports s')" "distinct (closed_ports s')" "distinct (filtered_ports s')"
    unfolding o c f by (rule picked_distinct [OF assms(1) sdist sset])+
  have de: "distinct (map fst (error_list results))"
    unfolding e by (rule picked_distinct [OF assms(1)]) simp_all
  have "set (open_ports s') \<inter> set (closed_ports s') = {}"
    "set (open_ports s') \<inter> set (filtered_ports s') = {}"
    "set (closed_ports s') \<inter> set (filtered_ports s') = {}"
    "set (open_ports s') \<inter> fst ` set (error_list results) = {}"
    "set (closed_ports s') \<inter> fst ` set (error_list results) = {}"
    "set (filtered_ports s') \<inter> fst ` set (error_list results) = {}"
    unfolding so sc sf se by (rule disj, simp)+
  moreover have "set (open_ports s') \<union> set (closed_ports s') \<union> set (filtered_ports s') \<union>
             fst ` set (error_list results) = set ps"
    unfolding so sc sf se by (rule union)
  ultimately show ?thesis
    using run d de unfolding self_def by blast
qed

text \<open>
  The hypotheses of C1 hold for four distinct ports, two workers and the order of
  execution 2, 0, 3, 1, where the probes meet a connect, a refusal, a timeout and a
  failed name lookup.
\<close>

theorem scan_partitions_ports_witness:
  "distinct [22, 80, 443, 8080 :: int] \<and> (0 :: int) < 2 \<and>
   mset [2, 0, 3, 1] = mset [0..<length [22, 80, 443, 8080 :: int]] \<and>
   (\<exists>results s'.
      run (PortScanner ''192.168.1.10'' [22, 80, 443, 8080] 1 2)
        (net [api_returning 0, api_returning ECONNREFUSED,
              api_raising (SocketTimeout ''timed out''),
              api_raising (OtherException ''Name or service not known'')])
        [2, 0, 3, 1] = Inr (results, s') \<and>
      set (open_ports s') \<inter> set (closed_ports s') = {} \<and>
      set (open_ports s') \<inter> set (filtered_ports s') = {} \<and>
      set (closed_ports s') \<inter> set (filtered_ports s') = {} \<and>
      set (open_ports s') \<inter> fst ` set (error_list results) = {} \<and>
      set (closed_ports s') \<inter> fst ` set (error_list results) = {} \<and>
      set (filtered_ports s') \<inter> fst ` set (error_list results) = {} \<and>
      set (open_ports s') \<union> set (closed_ports s') \<union> set (filtered_ports s') \<union>
        fst ` set (error_list results) = set [22, 80, 443, 8080] \<and>
      distinct (open_ports s') \<and> distinct (closed_ports s') \<and>
      distinct (filtered_ports s') \<and> distinct (map fst (error_list results)))"
proof -
  have h1: "distinct [22, 80, 443, 8080 :: int]" by simp
  have h2: "(0 :: int) < 2" by simp
  have h3: "mset [2, 0, 3, 1] = mset [0..<length [22, 80, 443, 8080 :: int]]"
    by code_simp
  show ?thesis
    using h1 h2 h3 scan_partitions_ports [OF h1 h2 h3] by blast
qed

text \<open>
  The claim C1 as the specification states it fails: the specification \<open>80,80\<close> parses
  to the port list 80, 80, and when the first probe connects and the second is refused,
  the scan puts port 80 in \<open>open_ports\<close> and in \<open>closed_ports\<close>, which are then not
  disjoint.
\<close>

theorem scan_duplicate_port:
  "parse_ports ''80,80'' = Inr [80, 80] \<and>
   run (PortScanner ''127.0.0.1'' [80, 80] 1 50)
     (net [api_returning 0, api_returning ECONNREFUSED]) [0, 1] =
   Inr ([[(''port'', PyInt 80), (''status'', PyStr ''OPEN'')],
         [(''port'', PyInt 80), (''status'', PyStr ''CLOSED'')]],
        \<lparr>target = ''127.0.0.1'', ports = [80, 80], timeout = 1, threads = 50,
         open_ports = [80], closed_ports = [80], filtered_ports = []\<rparr>) \<and>
   set (open_ports
          \<lparr>target = ''127.0.0.1'', ports = [80, 80], timeout = 1, threads = 50,
           open_ports = [80], closed_ports = [80], filtered_ports = []\<rparr>) \<inter>
   set (closed_ports
          \<lparr>target = ''127.0.0.1'', ports = [80, 80], timeout = 1, threads = 50,
           open_ports = [80], closed_ports = [80], filtered_ports = []\<rparr>) \<noteq> {}"
proof -
  have p: "parse_ports ''80,80'' = Inr [80, 80]"
    by code_simp
  have r: "run (PortScanner ''127.0.0.1'' [80, 80] 1 50)
     (net [api_returning 0, api_returning ECONNREFUSED]) [0, 1] =
   Inr ([[(''port'', PyInt 80), (''status'', PyStr ''OPEN'')],
         [(''port'', PyInt 80), (''status'', PyStr ''CLOSED'')]],
        \<lparr>target = ''127.0.0.1'', ports = [80, 80], timeout = 1, threads = 50,
         open_ports = [80], closed_ports = [80], filtered_ports = []\<rparr>)"
    by (simp add: run_def execute_def task_def scan_port_def connect_attempt_def net_def
        api_returning_def PortScanner_def ECONNREFUSED_def upt_rec)
  show ?thesis
    using p r by simp
qed

text \<open>
  C3. With at least one worker the scan returns, whatever the probes meet and in
  whatever order they run, a list with one entry per port. A probe whose connect attempt
  raises an exception other than a timeout yields the ERROR entry of its port, with the
  text of the exception, at its place in that list and in the error list; nothing is
  raised out of the scan. When every probe fails so, the error list names every port.
\<close>

theorem probe_error_is_local:
  assumes "0 < threads self"
  shows "\<exists>results s'.
           run self envs sched = Inr (results, s') \<and>
           length results = length (ports self) \<and>
           (\<forall>i < length (ports self). \<forall>m.
              fst (connect_attempt self (envs i) (ports self ! i)) = Inl (OtherException m) \<longrightarrow>
                results ! i =
                  [(''port'', PyInt (ports self ! i)), (''status'', PyStr ''ERROR''),
                   (''error'', PyStr m)] \<and>
                (ports self ! i, m) \<in> set (error_list results)) \<and>
           ((\<forall>i < length (ports self). \<exists>m.
               fst (connect_attempt self (envs i) (ports self ! i)) = Inl (OtherException m)) \<longrightarrow>
              map fst (error_list results) = ports self)"
proof -
  define results where "results = map (\<lambda>i. fst (task envs i self)) [0..<length (ports self)]"
  have run: "run self envs sched = Inr (results, execute envs sched self)"
    using assms by (simp add: run_eq results_def)
  have len: "length results = length (ports self)"
    by (simp add: results_def)
  have "results ! i =
          [(''port'', PyInt (ports self ! i)), (''status'', PyStr ''ERROR''), (''error'', PyStr m)] \<and>
        (ports self ! i, m) \<in> set (error_list results)"
    if i: "i < length (ports self)"
      and m: "fst (connect_attempt self (envs i) (ports self ! i)) = Inl (OtherException m)"
    for i m
  proof -
    have ri: "results ! i = fst (scan_port self (envs i) (ports self ! i))"
      using i by (simp add: results_def task_def)
    have d: "fst (scan_port self (envs i) (ports self ! i)) =
          [(''port'', PyInt (ports self ! i)), (''status'', PyStr ''ERROR''), (''error'', PyStr m)]"
      using m by (simp add: scan_port_result)
    have "(ports self ! i, m) \<in> set (error_entry (results ! i))"
      using m by (simp add: ri scan_port_error_entry)
    moreover have "results ! i \<in> set results"
      using i len by simp
    ultimately have "(ports self ! i, m) \<in> set (error_list results)"
      unfolding error_list_def by auto
    then show ?thesis using ri d by simp
  qed
  moreover have "map fst (error_list results) = ports self"
    if "\<forall>i < length (ports self). \<exists>m.
          fst (connect_attempt self (envs i) (ports self ! i)) = Inl (OtherException m)"
    unfolding results_def using that by (rule all_errors)
  ultimately show ?thesis using run len by blast
qed

text \<open>
  The hypotheses of C3 hold for a scan of two ports in which every probe fails: the name of
  the host cannot be resolved for the first, no socket can be created for the second.
\<close>

theorem probe_error_is_local_witness:
  "0 < threads (PortScanner ''no-such-host.invalid'' [22, 80] 1 50) \<and>
   (\<exists>results s'.
      run (PortScanner ''no-such-host.invalid'' [22, 80] 1 50)
        (net [api_raising (OtherException ''Name or service not known''),
              api_no_socket (OtherException ''Too many open files'')]) [1, 0]
        = Inr (results, s') \<and>
      length results = 2 \<and>
      results ! 0 = [(''port'', PyInt 22), (''status'', PyStr ''ERROR''),
                     (''error'', PyStr ''Name or service not known'')] \<and>
      results ! 1 = [(''port'', PyInt 80), (''status'', PyStr ''ERROR''),
                     (''error'', PyStr ''Too many open files'')] \<and>
      (22, ''Name or service not known'') \<in> set (error_list results) \<and>
      (80, ''Too many open files'') \<in> set (error_list results) \<and>
      map fst (error_list results) = [22, 80])"
proof -
  define self where "self = PortScanner ''no-such-host.invalid'' [22, 80] 1 50"
  define envs where "envs = net [api_raising (OtherException ''Name or service not known''),
              api_no_socket (OtherException ''Too many open files'')]"
  have h: "0 < threads self" by (simp add: self_def PortScanner_def)
  have p: "ports self = [22, 80]" by (simp add: self_def PortScanner_def)
  have a0: "fst (connect_attempt self (envs 0) (ports self ! 0)) =
              Inl (OtherException ''Name or service not known'')"
    by (simp add: connect_attempt_def envs_def net_def api_raising_def)
  have a1: "fst (connect_attempt self (envs 1) (ports self ! 1)) =
              Inl (OtherException ''Too many open files'')"
    by (simp add: connect_attempt_def envs_def net_def api_no_socket_def)
  have all: "\<forall>i < length (ports self). \<exists>m.
             fst (connect_attempt self (envs i) (ports self ! i)) = Inl (OtherException m)"
  proof (intro allI impI)
    fix i assume "i < length (ports self)"
    then have "i = 0 \<or> i = 1" by (simp add: p less_Suc_eq numeral_2_eq_2)
    then show "\<exists>m. fst (connect_attempt self (envs i) (ports self ! i)) = Inl (OtherException m)"
      using a0 a1 by blast
  qed
  from probe_error_is_local [OF h, of envs "[1, 0]"]
  obtain results s' where r: "run self envs [1, 0] = Inr (results, s')"
    and len: "length results = length (ports self)"
    and each: "\<And>i m. i < length (ports self) \<Longrightarrow>
         fst (connect_attempt self (envs i) (ports self ! i)) = Inl (OtherException m) \<Longrightarrow>
         results ! i = [(''port'', PyInt (ports self ! i)), (''status'', PyStr ''ERROR''),
                        (''error'', PyStr m)] \<and>
         (ports self ! i, m) \<in> set (error_list results)"
    and every: "(\<forall>i < length (ports self). \<exists>m.
               fst (connect_attempt self (envs i) (ports self ! i)) = Inl (OtherException m)) \<Longrightarrow>
              map fst (error_list results) = ports self"
    by blast
  have e0: "results ! 0 = [(''port'', PyInt 22), (''status'', PyStr ''ERROR''),
                     (''error'', PyStr ''Name or service not known'')] \<and>
            (22, ''Name or service not known'') \<in> set (error_list results)"
    using each [OF _ a0] by (simp add: p)
  have e1: "results ! 1 = [(''port'', PyInt 80), (''status'', PyStr ''ERROR''),
                     (''error'', PyStr ''Too many open files'')] \<and>
            (80, ''Too many open files'') \<in> set (error_list results)"
    using each [OF _ a1] by (simp add: p)
  have ev: "map fst (error_list results) = [22, 80]"
    using every [OF all] by (simp add: p)
  have l2: "length results = 2" using len by (simp add: p)
  show ?thesis
    unfolding self_def [symmetric] envs_def [symmetric]
  proof (intro conjI exI)
    show "0 < threads self" by (rule h)
    show "run self envs [1, 0] = Inr (results, s')" by (rule r)
    show "length results = 2" by (rule l2)
  qed (use e0 e1 ev in simp_all)
qed

text \<open>
  C10. With at least one worker, \<open>run\<close> returns a list with exactly one dictionary per
  element of \<open>ports\<close>, in the order of \<open>ports\<close>, the entry at each place carrying the
  port at that place; a port that occurs twice has two entries.
\<close>

theorem run_one_result_per_port:
  assumes "0 < threads self"
  shows "\<exists>results s'.
           run self envs sched = Inr (results, s') \<and>
           length results = length (ports self) \<and>
           map (\<lambda>r. map_of r ''port'') results = map (\<lambda>p. Some (PyInt p)) (ports self)"
proof -
  have p: "map_of (fst (scan_port self api p)) ''port'' = Some (PyInt p)" for api p
    by (simp add: scan_port_def split: prod.splits sum.splits exn.splits)
  have "map (\<lambda>r. map_of r ''port'') (map (\<lambda>i. fst (task envs i self)) [0..<length (ports self)])
          = map (\<lambda>i. Some (PyInt (ports self ! i))) [0..<length (ports self)]"
    by (simp add: task_def p)
  also have "\<dots> = map (\<lambda>p. Some (PyInt p)) (map (\<lambda>i. ports self ! i) [0..<length (ports self)])"
    by simp
  also have "\<dots> = map (\<lambda>p. Some (PyInt p)) (ports self)"
    by (simp only: map_nth)
  finally show ?thesis
    using assms by (simp add: run_eq)
qed

text \<open>The hypothesis of C10 holds for the port list 80, 80, which has two entries.\<close>

theorem run_one_result_per_port_witness:
  "0 < threads (PortScanner ''127.0.0.1'' [80, 80] 1 50) \<and>
   (\<exists>results s'.
      run (PortScanner ''127.0.0.1'' [80, 80] 1 50)
        (net [api_returning 0, api_returning ECONNREFUSED]) [1, 0] = Inr (results, s') \<and>
      length results = 2 \<and>
      map (\<lambda>r. map_of r ''port'') results = [Some (PyInt 80), Some (PyInt 80)])"
proof -
  have h: "0 < threads (PortScanner ''127.0.0.1'' [80, 80] 1 50)"
    by (simp add: PortScanner_def)
  show ?thesis
    using h run_one_result_per_port [OF h, of "net [api_returning 0, api_returning ECONNREFUSED]" "[1, 0]"]
    by (simp add: PortScanner_sel numeral_2_eq_2)
qed

text \<open>
  C7, as the code has it. A scan over an empty port list returns the empty result list
  and leaves the scanner as constructed, for every timeout; with at least one worker no
  timeout and no port list makes the call fail; a worker count below one makes the call
  fail with \<open>ValueError\<close>.
\<close>

theorem run_validation:
  "(0 < thr \<longrightarrow>
      run (PortScanner tgt [] tmo thr) envs [] = Inr ([], PortScanner tgt [] tmo thr)) \<and>
   (0 < thr \<longrightarrow> (\<exists>results s'. run (PortScanner tgt ps tmo thr) envs sched = Inr (results, s'))) \<and>
   (thr \<le> 0 \<longrightarrow> run (PortScanner tgt ps tmo thr) envs sched = Inl ValueError)"
  by (simp add: run_def PortScanner_sel execute_Nil)

text \<open>
  The three parts of C7 at concrete inputs: an empty port list with timeout -1, two ports
  with timeout 0, and a worker count of 0.
\<close>

theorem run_validation_witness:
  "(0 :: int) < 50 \<and> (0 :: int) \<le> 0 \<and>
   run (PortScanner ''127.0.0.1'' [] (- 1) 50) (net []) [] =
     Inr ([], PortScanner ''127.0.0.1'' [] (- 1) 50) \<and>
   (\<exists>results s'. run (PortScanner ''127.0.0.1'' [22, 80] 0 50)
                    (net [api_returning 0]) [1, 0] = Inr (results, s')) \<and>
   run (PortScanner ''127.0.0.1'' [22, 80] 1 0) (net [api_returning 0]) [1, 0] = Inl ValueError"
proof -
  have h1: "(0 :: int) < 50" by simp
  have h2: "(0 :: int) \<le> 0" by simp
  show ?thesis
    using h1 h2
      run_validation [of 50 "''127.0.0.1''" "- 1" "net []" "[22, 80]" "[1, 0]"]
      run_validation [of 50 "''127.0.0.1''" 0 "net [api_returning 0]" "[22, 80]" "[1, 0]"]
      run_validation [of 0 "''127.0.0.1''" 1 "net [api_returning 0]" "[22, 80]" "[1, 0]"]
    by simp
qed

text \<open>
  The claim C7 as the specification states it fails: a scan over the empty port list
  returns the empty result list, and a scan with timeout 0 returns its results.
\<close>

theorem run_empty_ports_returns:
  "run (PortScanner ''127.0.0.1'' [] 1 50) (net []) [] =
     Inr ([], PortScanner ''127.0.0.1'' [] 1 50) \<and>
   run (PortScanner ''127.0.0.1'' [80] 0 50) (net [api_returning 0]) [0] =
     Inr ([[(''port'', PyInt 80), (''status'', PyStr ''OPEN'')]],
          \<lparr>target = ''127.0.0.1'', ports = [80], timeout = 0, threads = 50,
           open_ports = [80], closed_ports = [], filtered_ports = []\<rparr>)"
  by (simp add: run_def execute_def task_def scan_port_def connect_attempt_def net_def
      api_returning_def PortScanner_def)

subsection \<open>The probe\<close>

text \<open>
  C2, as the code has it. The probe classifies in this order: the connect returns the
  indicator 0, OPEN; it returns an indicator that is neither 0 nor one of the two with
  which a connect reports that no answer came in time (a refusal, but also every other
  error the connect reports by its return value, such as an unreachable network),
  CLOSED; the lack of an answer within the timeout is raised as \<open>socket.timeout\<close>,
  FILTERED; any other exception is raised by the creation of the socket, by
  \<open>settimeout\<close> or by the connect, ERROR with the text of the exception under
  \<open>'error'\<close>. Every outcome carries the port. Nothing is said of a connect that
  reports the lack of an answer by its return value.
\<close>

theorem scan_port_classification:
  "(fst (connect_attempt self api port) = Inr 0 \<longrightarrow>
      fst (scan_port self api port) =
        [(''port'', PyInt port), (''status'', PyStr ''OPEN'')]) \<and>
   (\<forall>result.
      fst (connect_attempt self api port) = Inr result \<and> result \<noteq> 0 \<and>
      result \<noteq> ETIMEDOUT \<and> result \<noteq> EAGAIN \<longrightarrow>
      fst (scan_port self api port) =
        [(''port'', PyInt port), (''status'', PyStr ''CLOSED'')]) \<and>
   (\<forall>m.
      fst (connect_attempt self api port) = Inl (SocketTimeout m) \<longrightarrow>
      fst (scan_port self api port) =
        [(''port'', PyInt port), (''status'', PyStr ''FILTERED'')]) \<and>
   (\<forall>m.
      fst (connect_attempt self api port) = Inl (OtherException m) \<longrightarrow>
      fst (scan_port self api port) =
        [(''port'', PyInt port), (''status'', PyStr ''ERROR''), (''error'', PyStr m)]) \<and>
   fst (connect_attempt self api port) =
     (case socket_new api of
        Inl e \<Rightarrow> Inl e
      | Inr _ \<Rightarrow>
         (case settimeout api (timeout self) of
            Inl e \<Rightarrow> Inl e
          | Inr _ \<Rightarrow> connect_ex api (target self) port))"
proof -
  have "fst (connect_attempt self api port) =
     (case socket_new api of
        Inl e \<Rightarrow> Inl e
      | Inr _ \<Rightarrow>
         (case settimeout api (timeout self) of
            Inl e \<Rightarrow> Inl e
          | Inr _ \<Rightarrow> connect_ex api (target self) port))"
    by (simp add: connect_attempt_def split: sum.splits)
  then show ?thesis
    by (simp add: scan_port_result)
qed

text \<open>
  The four cases of C2 at concrete inputs: a connect, a refusal, a timeout that is
  raised, and a socket that cannot be created.
\<close>

theorem scan_port_classification_witness:
  "fst (scan_port (PortScanner ''10.0.0.1'' [80] 1 50) (api_returning 0) 80) =
     [(''port'', PyInt 80), (''status'', PyStr ''OPEN'')] \<and>
   fst (scan_port (PortScanner ''10.0.0.1'' [80] 1 50) (api_returning ECONNREFUSED) 80) =
     [(''port'', PyInt 80), (''status'', PyStr ''CLOSED'')] \<and>
   fst (scan_port (PortScanner ''10.0.0.1'' [80] 1 50)
          (api_raising (SocketTimeout ''timed out'')) 80) =
     [(''port'', PyInt 80), (''status'', PyStr ''FILTERED'')] \<and>
   fst (scan_port (PortScanner ''10.0.0.1'' [80] 1 50)
          (api_no_socket (OtherException ''Too many open files'')) 80) =
     [(''port'', PyInt 80), (''status'', PyStr ''ERROR''),
      (''error'', PyStr ''Too many open files'')]"
proof -
  have a: "fst (connect_attempt (PortScanner ''10.0.0.1'' [80] 1 50) (api_returning 0) 80)
             = Inr 0"
    by (simp add: connect_attempt_def api_returning_def)
  have b: "fst (connect_attempt (PortScanner ''10.0.0.1'' [80] 1 50)
                  (api_returning ECONNREFUSED) 80) = Inr ECONNREFUSED \<and>
           ECONNREFUSED \<noteq> 0 \<and> ECONNREFUSED \<noteq> ETIMEDOUT \<and> ECONNREFUSED \<noteq> EAGAIN"
    by (simp add: connect_attempt_def api_returning_def ECONNREFUSED_def ETIMEDOUT_def
        EAGAIN_def)
  have c: "fst (connect_attempt (PortScanner ''10.0.0.1'' [80] 1 50)
                  (api_raising (SocketTimeout ''timed out'')) 80) =
             Inl (SocketTimeout ''timed out'')"
    by (simp add: connect_attempt_def api_raising_def)
  have d: "fst (connect_attempt (PortScanner ''10.0.0.1'' [80] 1 50)
                  (api_no_socket (OtherException ''Too many open files'')) 80) =
             Inl (OtherException ''Too many open files'')"
    by (simp add: connect_attempt_def api_no_socket_def)
  from a scan_port_classification
    [of "PortScanner ''10.0.0.1'' [80] 1 50" "api_returning 0" 80]
  have 1: "fst (scan_port (PortScanner ''10.0.0.1'' [80] 1 50) (api_returning 0) 80) =
     [(''port'', PyInt 80), (''status'', PyStr ''OPEN'')]"
    by blast
  from b scan_port_classification
    [of "PortScanner ''10.0.0.1'' [80] 1 50" "api_returning ECONNREFUSED" 80]
  have 2: "fst (scan_port (PortScanner ''10.0.0.1'' [80] 1 50)
                  (api_returning ECONNREFUSED) 80) =
     [(''port'', PyInt 80), (''status'', PyStr ''CLOSED'')]"
    by blast
  from c scan_port_classification
    [of "PortScanner ''10.0.0.1'' [80] 1 50" "api_raising (SocketTimeout ''timed out'')" 80]
  have 3: "fst (scan_port (PortScanner ''10.0.0.1'' [80] 1 50)
          (api_raising (SocketTimeout ''timed out'')) 80) =
     [(''port'', PyInt 80), (''status'', PyStr ''FILTERED'')]"
    by blast
  from d scan_port_classification
    [of "PortScanner ''10.0.0.1'' [80] 1 50"
        "api_no_socket (OtherException ''Too many open files'')" 80]
  have 4: "fst (scan_port (PortScanner ''10.0.0.1'' [80] 1 50)
          (api_no_socket (OtherException ''Too many open files'')) 80) =
     [(''port'', PyInt 80), (''status'', PyStr ''ERROR''),
      (''error'', PyStr ''Too many open files'')]"
    by blast
  from 1 2 3 4 show ?thesis by (intro conjI)
qed

text \<open>
  The claim C2 as the specification states it fails: a connect that reports "network
  unreachable" by its return value is classified CLOSED, where the policy of the
  specification gives ERROR.
\<close>

theorem scan_port_departs_from_policy:
  "status_of (fst (scan_port (PortScanner ''10.0.0.1'' [80] 1 50) (api_returning ENETUNREACH) 80))
     = ''CLOSED'' \<and>
   spec_policy (fst (connect_attempt (PortScanner ''10.0.0.1'' [80] 1 50)
                       (api_returning ENETUNREACH) 80)) = ''ERROR''"
  by (simp add: scan_port_result status_of_def connect_attempt_def api_returning_def
      ENETUNREACH_def ECONNREFUSED_def ETIMEDOUT_def EAGAIN_def)

text \<open>
  The case the statement of C2 leaves out: a connect that reports by its return value
  that no answer came in time is classified CLOSED, although the probe has a clause of
  its own for timeouts, which gives FILTERED.
\<close>

lemma scan_port_timeout_indicator:
  "status_of (fst (scan_port (PortScanner ''10.0.0.1'' [80] 1 50) (api_returning EAGAIN) 80))
     = ''CLOSED'' \<and>
   spec_policy (fst (connect_attempt (PortScanner ''10.0.0.1'' [80] 1 50)
                       (api_returning EAGAIN) 80)) = ''FILTERED''"
  by (simp add: scan_port_result status_of_def connect_attempt_def api_returning_def
      ECONNREFUSED_def ETIMEDOUT_def EAGAIN_def)

text \<open>
  C5. When the name of the host cannot be resolved, the connect raises after the socket
  was created: the probe returns its ERROR outcome and the socket it created is not
  closed, where the claim has every exit path close it.
\<close>

theorem scan_port_leaves_socket_open:
  "scan_port (PortScanner ''no-such-host.invalid'' [80] 1 50)
     (api_raising (OtherException ''[Errno -2] Name or service not known'')) 80 =
   ([(''port'', PyInt 80), (''status'', PyStr ''ERROR''),
     (''error'', PyStr ''[Errno -2] Name or service not known'')],
    PortScanner ''no-such-host.invalid'' [80] 1 50,
    [SockCreate])"
  by (simp add: scan_port_def connect_attempt_def api_raising_def)

text \<open>
  C6, as the code has it. The probe itself changes the scanner: it appends its port to
  the list named by the status it returns (\<open>open_ports\<close> for OPEN, \<open>closed_ports\<close>
  for CLOSED, \<open>filtered_ports\<close> for FILTERED) and leaves everything else as it was; an
  ERROR outcome leaves the scanner unchanged.
\<close>

theorem scan_port_effect:
  "fst (snd (scan_port self api port)) =
     (if status_of (fst (scan_port self api port)) = ''OPEN''
        then self\<lparr>open_ports := open_ports self @ [port]\<rparr>
      else if status_of (fst (scan_port self api port)) = ''CLOSED''
        then self\<lparr>closed_ports := closed_ports self @ [port]\<rparr>
      else if status_of (fst (scan_port self api port)) = ''FILTERED''
        then self\<lparr>filtered_ports := filtered_ports self @ [port]\<rparr>
      else self)"
  by (simp add: scan_port_def status_of_def split: prod.splits sum.splits exn.splits)

text \<open>The FILTERED case of C6 at a concrete input.\<close>

theorem scan_port_effect_witness:
  "fst (snd (scan_port (PortScanner ''127.0.0.1'' [80] 1 50)
               (api_raising (SocketTimeout ''timed out'')) 80)) =
     \<lparr>target = ''127.0.0.1'', ports = [80], timeout = 1, threads = 50,
      open_ports = [], closed_ports = [], filtered_ports = [80]\<rparr>"
proof -
  have "status_of (fst (scan_port (PortScanner ''127.0.0.1'' [80] 1 50)
               (api_raising (SocketTimeout ''timed out'')) 80)) = ''FILTERED''"
    by (simp add: scan_port_result status_of_def connect_attempt_def api_raising_def)
  then show ?thesis
    using scan_port_effect [of "PortScanner ''127.0.0.1'' [80] 1 50"
        "api_raising (SocketTimeout ''timed out'')" 80]
    by (simp add: PortScanner_def)
qed

text \<open>
  The claim C6 as the specification states it fails: a probe that connects adds its port
  to \<open>open_ports\<close>.
\<close>

theorem scan_port_appends_to_bucket:
  "open_ports (PortScanner ''127.0.0.1'' [80] 1 50) = [] \<and>
   open_ports (fst (snd (scan_port (PortScanner ''127.0.0.1'' [80] 1 50) (api_returning 0) 80)))
     = [80]"
  by (simp add: scan_port_def connect_attempt_def api_returning_def PortScanner_def)

subsection \<open>Port parsing\<close>

text \<open>
  C8, as the code has it. Parsing fails, with \<open>ValueError\<close>, exactly when a token is
  not an integer literal or a specification containing \<open>-\<close> does not split into two
  tokens. There is no check of the bounds 1..65535 and none of the order of a range:
  \<open>70000\<close> and \<open>0\<close> parse to themselves and \<open>5-3\<close> to the empty list.
\<close>

theorem parse_ports_failure:
  "(parse_ports s = Inl ValueError) =
     (if CHR ''-'' \<in> set s
      then length (split_on CHR ''-'' s) \<noteq> 2 \<or> None \<in> set (map py_int (split_on CHR ''-'' s))
      else None \<in> set (map py_int (split_on CHR '','' s))) \<and>
   parse_ports ''70000'' = Inr [70000] \<and>
   parse_ports ''0'' = Inr [0] \<and>
   parse_ports ''5-3'' = Inr []"
proof -
  have ex: "parse_ports ''70000'' = Inr [70000]" "parse_ports ''0'' = Inr [0]"
    "parse_ports ''5-3'' = Inr []"
    by code_simp+
  have "(parse_ports s = Inl ValueError) =
     (if CHR ''-'' \<in> set s
      then length (split_on CHR ''-'' s) \<noteq> 2 \<or> None \<in> set (map py_int (split_on CHR ''-'' s))
      else None \<in> set (map py_int (split_on CHR '','' s)))"
  proof (cases "CHR ''-'' \<in> set s")
    case True
    show ?thesis
    proof (cases "map py_int (split_on CHR ''-'' s)")
      case Nil
      then show ?thesis using True by (simp add: parse_ports_def)
    next
      case (Cons a as)
      note c1 = Cons
      show ?thesis
      proof (cases as)
        case Nil
        then show ?thesis using True c1 split_on_length [OF True]
          by (cases a) (auto simp add: parse_ports_def dest: arg_cong [where f = length])
      next
        case (Cons b bs)
        then show ?thesis using True c1
          by (cases a; cases b; cases bs) (auto simp add: parse_ports_def dest: arg_cong [where f = length])
      qed
    qed
  next
    case False
    then show ?thesis by (simp add: parse_ports_def Let_def)
  qed
  then show ?thesis using ex by simp
qed

text \<open>The failure condition of C8 at \<open>1-x\<close>, whose second token is no integer.\<close>

theorem parse_ports_failure_witness:
  "CHR ''-'' \<in> set ''1-x'' \<and> length (split_on CHR ''-'' ''1-x'') = 2 \<and>
   None \<in> set (map py_int (split_on CHR ''-'' ''1-x'')) \<and>
   parse_ports ''1-x'' = Inl ValueError"
proof -
  have a: "CHR ''-'' \<in> set ''1-x''" by simp
  have b: "length (split_on CHR ''-'' ''1-x'') = 2" by code_simp
  have c: "None \<in> set (map py_int (split_on CHR ''-'' ''1-x''))" by code_simp
  have "parse_ports ''1-x'' = Inl ValueError"
    using parse_ports_failure [of "''1-x''"] a b c by (simp only: if_True simp_thms)
  then show ?thesis using a b c by (simp only: simp_thms)
qed

text \<open>
  The claim C8 as the specification states it fails: none of \<open>70000\<close>, \<open>0\<close> and
  \<open>5-3\<close> is rejected.
\<close>

theorem parse_ports_accepts_out_of_range:
  "parse_ports ''70000'' = Inr [70000] \<and> parse_ports ''0'' = Inr [0] \<and>
   parse_ports ''5-3'' = Inr []"
  by code_simp

text \<open>
  C9, as the code has it. For a comma-separated list whose tokens are all integer
  literals, parsing returns one port per token, in the order of the tokens; duplicates
  are kept.
\<close>

theorem parse_ports_list:
  assumes "CHR ''-'' \<notin> set s" and "None \<notin> set (map py_int (split_on CHR '','' s))"
  shows "\<exists>ps. parse_ports s = Inr ps \<and>
              length ps = length (split_on CHR '','' s) \<and>
              (\<forall>i < length ps. py_int (split_on CHR '','' s ! i) = Some (ps ! i))"
proof -
  have "py_int (split_on CHR '','' s ! i) = Some (the (py_int (split_on CHR '','' s ! i)))"
    if "i < length (split_on CHR '','' s)" for i
  proof -
    have "py_int (split_on CHR '','' s ! i) \<in> set (map py_int (split_on CHR '','' s))"
      using that by simp
    then have "py_int (split_on CHR '','' s ! i) \<noteq> None"
      using assms(2) by metis
    then show ?thesis by simp
  qed
  then show ?thesis
    using assms by (simp add: parse_ports_def Let_def)
qed

text \<open>The hypotheses of C9 hold for \<open>80,22,80,443\<close>.\<close>

theorem parse_ports_list_witness:
  "CHR ''-'' \<notin> set ''80,22,80,443'' \<and>
   None \<notin> set (map py_int (split_on CHR '','' ''80,22,80,443'')) \<and>
   (\<exists>ps. parse_ports ''80,22,80,443'' = Inr ps \<and>
         length ps = length (split_on CHR '','' ''80,22,80,443'') \<and>
         (\<forall>i < length ps. py_int (split_on CHR '','' ''80,22,80,443'' ! i) = Some (ps ! i)))"
proof -
  have a: "CHR ''-'' \<notin> set ''80,22,80,443''" by simp
  have b: "None \<notin> set (map py_int (split_on CHR '','' ''80,22,80,443''))" by code_simp
  show ?thesis
    using a b parse_ports_list [OF a b] by (simp only: simp_thms)
qed

text \<open>
  The claim C9 as the specification states it fails: the second 80 of \<open>80,22,80,443\<close>
  is kept.
\<close>

theorem parse_ports_keeps_duplicates:
  "parse_ports ''80,22,80,443'' = Inr [80, 22, 80, 443] \<and>
   parse_ports ''80,22,80,443'' \<noteq> Inr [80, 22, 443]"
  by code_simp

end
